theory Spec2Isabelle
  imports Main
begin

section \<open>Values, schemas and exceptions\<close>

text \<open>
  A shallow embedding of \<^verbatim>\<open>brickblock/pipeline/base_pipeline.py\<close> (class
  \<^verbatim>\<open>Pipeline\<close>). Field values are JSON atoms; a mapping is an ordered list of
  key/value pairs, as a Python dict is.
\<close>

datatype jv = JNone | JInt int | JStr string

type_synonym fields = "(string \<times> jv) list"

text \<open>
  A schema is a pydantic model class: its name and its base classes. Two classes are the
  same class when they are the same value; \<open>issubclass_schema\<close> is Python's
  \<^verbatim>\<open>issubclass\<close> on two model classes.
\<close>

datatype schema = Schema string "schema list"

fun issubclass_schema :: "schema \<Rightarrow> schema \<Rightarrow> bool" where
  "issubclass_schema (Schema n bs) c =
     (Schema n bs = c \<or> list_ex (\<lambda>b. issubclass_schema b c) bs)"

text \<open>
  The values that flow through a pipeline: an instance of a model class, a plain dict, or
  any other (JSON-serialisable) value.
\<close>

datatype pyval = Inst schema fields | Dict fields | Prim jv

text \<open>\<^verbatim>\<open>isinstance(data, BaseModel)\<close>, \<^verbatim>\<open>isinstance(data, dict)\<close> and
  \<^verbatim>\<open>isinstance(data, cls)\<close> for a model class \<^verbatim>\<open>cls\<close>.\<close>

fun is_BaseModel :: "pyval \<Rightarrow> bool" where
  "is_BaseModel (Inst s f) = True"
| "is_BaseModel v = False"

fun isinstance_schema :: "pyval \<Rightarrow> schema \<Rightarrow> bool" where
  "isinstance_schema (Inst s f) c = issubclass_schema s c"
| "isinstance_schema v c = False"

fun type_of :: "pyval \<Rightarrow> schema option" where
  "type_of (Inst s f) = Some s"
| "type_of v = None"

text \<open>
  What Python can raise, by the class family that the handlers of \<^verbatim>\<open>build\<close> tell
  apart: \<open>TypeError\<close> and \<open>ValueError\<close> stand for the class or any subclass of it
  (pydantic's \<^verbatim>\<open>ValidationError\<close> is a \<open>ValueError\<close>), \<open>OtherException\<close> for
  any other subclass of \<^verbatim>\<open>Exception\<close>, and \<open>BaseExceptionOnly\<close> for an instance of
  \<^verbatim>\<open>BaseException\<close> that is no \<^verbatim>\<open>Exception\<close>: \<^verbatim>\<open>KeyboardInterrupt\<close>,
  \<^verbatim>\<open>SystemExit\<close>, \<^verbatim>\<open>asyncio.CancelledError\<close>. The argument is \<^verbatim>\<open>str(e)\<close>.
\<close>

datatype exn =
    TypeError string
  | ValueError string
  | KeyError string
  | AttributeError string
  | OtherException string
  | BaseExceptionOnly string

fun str_exn :: "exn \<Rightarrow> string" where
  "str_exn (TypeError m) = m"
| "str_exn (ValueError m) = m"
| "str_exn (KeyError m) = m"
| "str_exn (AttributeError m) = m"
| "str_exn (OtherException m) = m"
| "str_exn (BaseExceptionOnly m) = m"

text \<open>\<^verbatim>\<open>isinstance(e, Exception)\<close>: what a clause \<^verbatim>\<open>except Exception\<close> catches.\<close>

fun is_Exception :: "exn \<Rightarrow> bool" where
  "is_Exception (BaseExceptionOnly m) = False"
| "is_Exception e = True"

text \<open>
  The schema engine is an external collaborator: \<open>V s d\<close> is the outcome of validating
  the mapping \<open>d\<close> against the class \<open>s\<close>, the validated fields or the exception
  raised. \<open>construct V m d\<close> is the call \<^verbatim>\<open>m(**d)\<close>; the attribute \<open>m\<close> may still
  be \<^verbatim>\<open>None\<close>, and calling \<^verbatim>\<open>None\<close> raises a \<open>TypeError\<close>.
\<close>

type_synonym validator = "schema \<Rightarrow> fields \<Rightarrow> exn + fields"

definition construct :: "validator \<Rightarrow> schema option \<Rightarrow> fields \<Rightarrow> exn + pyval" where
  "construct V m d =
     (case m of
        None \<Rightarrow> Inl (TypeError ''NoneType object is not callable'')
      | Some s \<Rightarrow> (case V s d of Inl e \<Rightarrow> Inl e | Inr f \<Rightarrow> Inr (Inst s f)))"

text \<open>\<^verbatim>\<open>data.model_dump()\<close>. The source calls it on model instances only, behind an
  \<^verbatim>\<open>isinstance\<close> test; the other two equations make the function total.\<close>

fun model_dump :: "pyval \<Rightarrow> fields" where
  "model_dump (Inst s f) = f"
| "model_dump (Dict f) = f"
| "model_dump (Prim a) = []"

section \<open>Steps\<close>

text \<open>
  Modelled from the spec: the classes \<^verbatim>\<open>Function\<close> and \<^verbatim>\<open>BaseModule\<close> are imported
  by the source and not part of it. A \<^verbatim>\<open>Function\<close> has an input schema, an output
  schema, a blocking invocation form and a suspend-capable one
  (\<^verbatim>\<open>func.to_function()(data)\<close>, \<^verbatim>\<open>await func.to_afunction()(data)\<close>). A module class
  is instantiated without arguments and exposes \<^verbatim>\<open>run\<close> with its annotations and the
  two hooks, which return strings.
\<close>

record Function =
  f_input_model :: schema
  f_output_model :: schema
  f_to_function :: "pyval \<Rightarrow> exn + pyval"
  f_to_afunction :: "pyval \<Rightarrow> exn + pyval"

record BaseModule =
  m_new :: "exn option"
  m_annotations :: "(string \<times> schema) list"
  m_run :: "pyval \<Rightarrow> exn + pyval"
  m_onProgressStartMessage :: "pyval \<Rightarrow> exn + string"
  m_onProgressEndMessage :: "pyval \<Rightarrow> exn + string"

text \<open>
  What a caller can hand to the registration methods and what \<^verbatim>\<open>list_functions\<close> can
  hold: a \<^verbatim>\<open>Function\<close> instance, a subclass of \<^verbatim>\<open>BaseModule\<close>, some other class,
  or an object that is neither (a plain callable).
\<close>

datatype pyobj =
    FunctionObj Function
  | ModuleCls BaseModule
  | OtherCls string
  | Callable string

text \<open>\<^verbatim>\<open>issubclass(f, BaseModule)\<close>: a \<open>TypeError\<close> when \<^verbatim>\<open>f\<close> is not a class.\<close>

fun issubclass_BaseModule :: "pyobj \<Rightarrow> exn + bool" where
  "issubclass_BaseModule (ModuleCls m) = Inr True"
| "issubclass_BaseModule (OtherCls n) = Inr False"
| "issubclass_BaseModule u = Inl (TypeError ''issubclass() arg 1 must be a class'')"

text \<open>The attribute reads of the two inference blocks.\<close>

fun attr_input_model :: "pyobj \<Rightarrow> exn + schema" where
  "attr_input_model (FunctionObj f) = Inr (f_input_model f)"
| "attr_input_model u = Inl (AttributeError ''input_model'')"

fun attr_output_model :: "pyobj \<Rightarrow> exn + schema" where
  "attr_output_model (FunctionObj f) = Inr (f_output_model f)"
| "attr_output_model u = Inl (AttributeError ''output_model'')"

fun run_annotation :: "pyobj \<Rightarrow> string \<Rightarrow> exn + schema" where
  "run_annotation (ModuleCls m) k =
     (case map_of (m_annotations m) k of None \<Rightarrow> Inl (KeyError k) | Some s \<Rightarrow> Inr s)"
| "run_annotation u k = Inl (AttributeError ''run'')"

section \<open>The pipeline definition and its builder\<close>

record Pipeline =
  name :: string
  pid :: string
  sse :: bool
  input_model :: "schema option"
  output_model :: "schema option"
  list_functions :: "pyobj list"

text \<open>\<^verbatim>\<open>Pipeline.init\<close>; \<open>uuid\<close> is the value \<^verbatim>\<open>str(uuid.uuid4())\<close> would give.\<close>

definition init :: "string \<Rightarrow> string option \<Rightarrow> string \<Rightarrow> bool \<Rightarrow> Pipeline" where
  "init nm i uuid s =
     \<lparr> name = nm,
       pid = (case i of None \<Rightarrow> uuid | Some j \<Rightarrow> if j = [] then uuid else j),
       sse = s,
       input_model = None,
       output_model = None,
       list_functions = [] \<rparr>"

definition input :: "Pipeline \<Rightarrow> schema \<Rightarrow> Pipeline" where
  "input p m = p\<lparr>input_model := Some m\<rparr>"

definition output' :: "Pipeline \<Rightarrow> schema \<Rightarrow> Pipeline" where
  "output' p m = p\<lparr>output_model := Some m\<rparr>"

text \<open>
  The registration methods mutate the pipeline and may raise half-way: the model returns
  the exception raised, if any, together with the pipeline as the call leaves it.
  \<open>asF\<close> is \<^verbatim>\<open>Function.as_Function\<close>.
\<close>

fun append_functions ::
  "(pyobj \<Rightarrow> exn + Function) \<Rightarrow> pyobj list \<Rightarrow> pyobj list \<Rightarrow> exn option \<times> pyobj list" where
  "append_functions asF lf [] = (None, lf)"
| "append_functions asF lf (FunctionObj g # fs) = append_functions asF (lf @ [FunctionObj g]) fs"
| "append_functions asF lf (f # fs) =
     (case asF f of
        Inl e \<Rightarrow> (Some e, lf)
      | Inr g \<Rightarrow> append_functions asF (lf @ [FunctionObj g]) fs)"

fun append_modules :: "pyobj list \<Rightarrow> pyobj list \<Rightarrow> exn option \<times> pyobj list" where
  "append_modules lf [] = (None, lf)"
| "append_modules lf (f # fs) =
     (case issubclass_BaseModule f of
        Inl e \<Rightarrow> (Some e, lf)
      | Inr False \<Rightarrow> (Some (OtherException ''The module should be of type BaseModule''), lf)
      | Inr True \<Rightarrow> append_modules (lf @ [f]) fs)"

text \<open>
  The two inference blocks: \<^verbatim>\<open>if not self.input_model and self.list_functions\<close>. A class
  is truthy, so the test on the attribute is a test for \<^verbatim>\<open>None\<close>. \<open>first\<close> and
  \<open>lst\<close> read the schema off the first and the last registered step.
\<close>

definition infer_models ::
  "(pyobj \<Rightarrow> exn + schema) \<Rightarrow> (pyobj \<Rightarrow> exn + schema) \<Rightarrow> Pipeline \<Rightarrow> exn option \<times> Pipeline" where
  "infer_models first lst p =
     (case (if input_model p = None \<and> list_functions p \<noteq> []
            then (case first (hd (list_functions p)) of
                    Inl e \<Rightarrow> Inl e
                  | Inr s \<Rightarrow> Inr (p\<lparr>input_model := Some s\<rparr>))
            else Inr p) of
        Inl e \<Rightarrow> (Some e, p)
      | Inr p1 \<Rightarrow>
          (if output_model p1 = None \<and> list_functions p1 \<noteq> []
           then (case lst (last (list_functions p1)) of
                   Inl e \<Rightarrow> (Some e, p1)
                 | Inr s \<Rightarrow> (None, p1\<lparr>output_model := Some s\<rparr>))
           else (None, p1)))"

definition functions' ::
  "(pyobj \<Rightarrow> exn + Function) \<Rightarrow> Pipeline \<Rightarrow> pyobj list \<Rightarrow> exn option \<times> Pipeline" where
  "functions' asF p fs =
     (case append_functions asF (list_functions p) fs of
        (Some e, lf) \<Rightarrow> (Some e, p\<lparr>list_functions := lf\<rparr>)
      | (None, lf) \<Rightarrow> infer_models attr_input_model attr_output_model (p\<lparr>list_functions := lf\<rparr>))"

definition modules :: "Pipeline \<Rightarrow> pyobj list \<Rightarrow> exn option \<times> Pipeline" where
  "modules p fs =
     (case append_modules (list_functions p) fs of
        (Some e, lf) \<Rightarrow> (Some e, p\<lparr>list_functions := lf\<rparr>)
      | (None, lf) \<Rightarrow>
          infer_models (\<lambda>u. run_annotation u ''input'') (\<lambda>u. run_annotation u ''return'')
            (p\<lparr>list_functions := lf\<rparr>))"

section \<open>Compilation\<close>

text \<open>
  \<^verbatim>\<open>to_function\<close> and \<^verbatim>\<open>to_afunction\<close> thread the data through the steps in order;
  the first exception ends the loop. A step that is not a \<^verbatim>\<open>Function\<close> has no
  \<^verbatim>\<open>to_function\<close> attribute. The timing and the printing of the suspend-capable form
  have no effect on the result.
\<close>

fun call_to_function :: "pyobj \<Rightarrow> pyval \<Rightarrow> exn + pyval" where
  "call_to_function (FunctionObj f) data = f_to_function f data"
| "call_to_function u data = Inl (AttributeError ''to_function'')"

fun call_to_afunction :: "pyobj \<Rightarrow> pyval \<Rightarrow> exn + pyval" where
  "call_to_afunction (FunctionObj f) data = f_to_afunction f data"
| "call_to_afunction u data = Inl (AttributeError ''to_afunction'')"

fun run_steps :: "(pyobj \<Rightarrow> pyval \<Rightarrow> exn + pyval) \<Rightarrow> pyobj list \<Rightarrow> pyval \<Rightarrow> exn + pyval" where
  "run_steps call [] data = Inr data"
| "run_steps call (func # fs) data =
     (case call func data of Inl e \<Rightarrow> Inl e | Inr d \<Rightarrow> run_steps call fs d)"

text \<open>\<^verbatim>\<open>self.output_model(**data.model_dump()) if isinstance(data, BaseModel) else data\<close>\<close>

definition coerce_output :: "validator \<Rightarrow> Pipeline \<Rightarrow> pyval \<Rightarrow> exn + pyval" where
  "coerce_output V p data =
     (if is_BaseModel data then construct V (output_model p) (model_dump data) else Inr data)"

definition to_function :: "validator \<Rightarrow> Pipeline \<Rightarrow> pyval \<Rightarrow> exn + pyval" where
  "to_function V p input_data =
     (case run_steps call_to_function (list_functions p) input_data of
        Inl e \<Rightarrow> Inl e
      | Inr data \<Rightarrow> coerce_output V p data)"

definition to_afunction :: "validator \<Rightarrow> Pipeline \<Rightarrow> pyval \<Rightarrow> exn + pyval" where
  "to_afunction V p input_data =
     (case run_steps call_to_afunction (list_functions p) input_data of
        Inl e \<Rightarrow> Inl e
      | Inr data \<Rightarrow> coerce_output V p data)"

section \<open>The execution runner\<close>

text \<open>The dict that \<^verbatim>\<open>build\<close> returns, with its keys in the order of the source.\<close>

datatype rv = RNone | RStr string | RMap fields

type_synonym result = "(string \<times> rv) list"

definition failed :: "string \<Rightarrow> result" where
  "failed msg = [(''status'', RStr ''failed''), (''result'', RNone), (''message'', RStr msg)]"

definition succeeded :: "fields \<Rightarrow> result" where
  "succeeded r =
     [(''status'', RStr ''success''),
      (''message'', RStr ''Pipeline built successfully.''),
      (''result'', RMap r)]"

text \<open>
  A handler \<^verbatim>\<open>except Exception as e: return h(e)\<close>: it returns for an
  \<^verbatim>\<open>Exception\<close> and lets anything else pass.
\<close>

definition except_Exception :: "(exn \<Rightarrow> result) \<Rightarrow> exn \<Rightarrow> exn + result" where
  "except_Exception h e = (if is_Exception e then Inr (h e) else Inl e)"

text \<open>
  The message of the three handlers around the call of the compiled pipeline, in their
  order: \<^verbatim>\<open>except TypeError\<close>, \<^verbatim>\<open>except ValueError\<close>, \<^verbatim>\<open>except Exception\<close>.
\<close>

fun execution_error :: "exn \<Rightarrow> string" where
  "execution_error (TypeError m) = ''Type error during pipeline execution: '' @ m"
| "execution_error (ValueError m) = ''Value error during pipeline execution: '' @ m"
| "execution_error e = ''Unexpected error during pipeline execution: '' @ str_exn e"

text \<open>\<^verbatim>\<open>isinstance(output_instance, self.output_model)\<close>: a \<open>TypeError\<close> when the second
  argument is \<^verbatim>\<open>None\<close>.\<close>

definition isinstance_model :: "pyval \<Rightarrow> schema option \<Rightarrow> exn + bool" where
  "isinstance_model v m =
     (case m of
        None \<Rightarrow> Inl (TypeError ''isinstance() arg 2 must be a type'')
      | Some c \<Rightarrow> Inr (isinstance_schema v c))"

text \<open>
  The body of the outer \<^verbatim>\<open>try\<close> of \<^verbatim>\<open>build\<close> and \<^verbatim>\<open>abuild\<close>, which differ only
  in the compiled unit \<open>run\<close> they call. It returns from inside its three inner
  \<^verbatim>\<open>try\<close> blocks, whose last handler is \<^verbatim>\<open>except Exception\<close>; \<open>Inl\<close> is an
  exception leaving them.
\<close>

definition build_body ::
  "validator \<Rightarrow> Pipeline \<Rightarrow> (pyval \<Rightarrow> exn + pyval) \<Rightarrow> fields \<Rightarrow> exn + result" where
  "build_body V p run input_data =
     (case construct V (input_model p) input_data of
        Inl e \<Rightarrow>
          except_Exception (\<lambda>e. failed (''Input data validation error: '' @ str_exn e)) e
      | Inr input_instance \<Rightarrow>
          (case run input_instance of
             Inl e \<Rightarrow> except_Exception (\<lambda>e. failed (execution_error e)) e
           | Inr output_instance \<Rightarrow>
               (case isinstance_model output_instance (output_model p) of
                  Inl e \<Rightarrow>
                    except_Exception
                      (\<lambda>e. failed (''Error validating output model: '' @ str_exn e)) e
                | Inr True \<Rightarrow> Inr (succeeded (model_dump output_instance))
                | Inr False \<Rightarrow>
                    Inr (failed
                      ''Output schema mismatch. The output did not match the expected model schema.''))))"

definition build_with ::
  "validator \<Rightarrow> Pipeline \<Rightarrow> (pyval \<Rightarrow> exn + pyval) \<Rightarrow> fields \<Rightarrow> exn + result" where
  "build_with V p run input_data =
     (case build_body V p run input_data of
        Inl e \<Rightarrow> except_Exception (\<lambda>e. failed (''An unexpected error occurred: '' @ str_exn e)) e
      | Inr r \<Rightarrow> Inr r)"

definition build :: "validator \<Rightarrow> Pipeline \<Rightarrow> fields \<Rightarrow> exn + result" where
  "build V p input_data = build_with V p (to_function V p) input_data"

definition abuild :: "validator \<Rightarrow> Pipeline \<Rightarrow> fields \<Rightarrow> exn + result" where
  "abuild V p input_data = build_with V p (to_afunction V p) input_data"

text \<open>
  The conversion of the argument at the head of \<^verbatim>\<open>sse_generator\<close>,
  \<^verbatim>\<open>arun_modules\<close> and \<^verbatim>\<open>arun\<close>: a dict is validated, a model instance is dumped
  and parsed again, anything else passes as it is.
\<close>

definition coerce_input :: "validator \<Rightarrow> schema option \<Rightarrow> pyval \<Rightarrow> exn + pyval" where
  "coerce_input V m input_data =
     (case input_data of
        Dict d \<Rightarrow> construct V m d
      | Inst s f \<Rightarrow>
          (case m of None \<Rightarrow> Inl (AttributeError ''parse_obj'') | Some c \<Rightarrow> construct V m f)
      | Prim a \<Rightarrow> Inr (Prim a))"

text \<open>\<^verbatim>\<open>data = await __module.run(data)\<close>, and a dict result rebuilt into the class of
  the return annotation.\<close>

definition module_run :: "validator \<Rightarrow> BaseModule \<Rightarrow> pyval \<Rightarrow> exn + pyval" where
  "module_run V m data =
     (case m_run m data of
        Inl e \<Rightarrow> Inl e
      | Inr (Dict f) \<Rightarrow>
          (case map_of (m_annotations m) ''return'' of
             None \<Rightarrow> Inl (KeyError ''return'')
           | Some s \<Rightarrow> construct V (Some s) f)
      | Inr d \<Rightarrow> Inr d)"

fun run_modules :: "validator \<Rightarrow> pyobj list \<Rightarrow> pyval \<Rightarrow> exn + pyval" where
  "run_modules V [] data = Inr data"
| "run_modules V (ModuleCls m # mods) data =
     (case m_new m of
        Some e \<Rightarrow> Inl e
      | None \<Rightarrow>
          (case module_run V m data of Inl e \<Rightarrow> Inl e | Inr d \<Rightarrow> run_modules V mods d))"
| "run_modules V (OtherCls n # mods) data =
     Inl (OtherException ''The model should be type of BaseModule'')"
| "run_modules V (u # mods) data = Inl (TypeError ''issubclass() arg 1 must be a class'')"

definition arun_modules :: "validator \<Rightarrow> Pipeline \<Rightarrow> pyval \<Rightarrow> exn + pyval" where
  "arun_modules V p input_data =
     (case coerce_input V (input_model p) input_data of
        Inl e \<Rightarrow> Inl e
      | Inr data \<Rightarrow> run_modules V (list_functions p) data)"

definition arun :: "validator \<Rightarrow> Pipeline \<Rightarrow> pyval \<Rightarrow> exn + pyval" where
  "arun V p input_data =
     (if sse p then arun_modules V p input_data
      else (case coerce_input V (input_model p) input_data of
              Inl e \<Rightarrow> Inl e
            | Inr input_instance \<Rightarrow> to_afunction V p input_instance))"

section \<open>The progress streamer\<close>

text \<open>
  An event is the dict that the generator serialises into one frame
  \<^verbatim>\<open>data: <json>\<close>. The payload is \<^verbatim>\<open>None\<close>, the text \<^verbatim>\<open>data.json()\<close> of a model
  instance, the text \<^verbatim>\<open>str(data)\<close> of another value, or the value itself; a model
  instance itself is not JSON-serialisable, and \<^verbatim>\<open>json.dumps\<close> raises on it.
\<close>

datatype payload = PNull | PJson fields | PStr pyval | PRaw pyval

record event =
  ev_message :: string
  ev_status :: string
  ev_data :: payload

fun render :: "pyval \<Rightarrow> payload" where
  "render (Inst s f) = PJson f"
| "render v = PStr v"

fun dumps_raw :: "pyval \<Rightarrow> exn + payload" where
  "dumps_raw (Inst s f) = Inl (TypeError ''Object of type BaseModel is not JSON serializable'')"
| "dumps_raw v = Inr (PRaw v)"

definition sse_inactive_event :: event where
  "sse_inactive_event =
     \<lparr> ev_message = ''SSE is not activated in the pipeline'',
       ev_status = ''Exception'', ev_data = PNull \<rparr>"

definition start_event :: "string \<Rightarrow> pyval \<Rightarrow> event" where
  "start_event msg data =
     \<lparr> ev_message = msg, ev_status = ''onProgressStartMessage'', ev_data = render data \<rparr>"

definition completed_event :: "pyval \<Rightarrow> event" where
  "completed_event data =
     \<lparr> ev_message = [], ev_status = ''onFunctionCompleted'', ev_data = render data \<rparr>"

definition progress_end_event :: "string \<Rightarrow> pyval \<Rightarrow> event" where
  "progress_end_event msg data =
     \<lparr> ev_message = msg, ev_status = ''onProgressEndMessage'', ev_data = render data \<rparr>"

definition exception_event :: "payload \<Rightarrow> event" where
  "exception_event pl =
     \<lparr> ev_message =
         ''Exception: The function type passed to the pipeline should be an instance of BaseModule'',
       ev_status = ''Exception'', ev_data = pl \<rparr>"

definition end_event :: event where
  "end_event = \<lparr> ev_message = [], ev_status = ''End'', ev_data = PNull \<rparr>"

text \<open>
  A run of the generator is the list of the events it yields and the exception that ends
  it, if one does. \<open>emit\<close> puts yielded events in front of the rest of a run.
\<close>

type_synonym stream = "event list \<times> exn option"

definition emit :: "event list \<Rightarrow> stream \<Rightarrow> stream" where
  "emit evs r = (evs @ fst r, snd r)"

text \<open>
  The loop of \<^verbatim>\<open>sse_generator\<close>. The equations follow
  \<^verbatim>\<open>issubclass(mod, BaseModule)\<close>: true for a module class, false for another class,
  a \<open>TypeError\<close> for an object that is no class. Nothing in the loop catches an
  exception.
\<close>

fun sse_steps :: "validator \<Rightarrow> pyobj list \<Rightarrow> pyval \<Rightarrow> stream" where
  "sse_steps V [] data = ([end_event], None)"
| "sse_steps V (ModuleCls m # mods) data =
     (case m_new m of
        Some e \<Rightarrow> ([], Some e)
      | None \<Rightarrow>
          (case m_onProgressStartMessage m data of
             Inl e \<Rightarrow> ([], Some e)
           | Inr smsg \<Rightarrow>
               emit [start_event smsg data]
                 (case module_run V m data of
                    Inl e \<Rightarrow> ([], Some e)
                  | Inr d \<Rightarrow>
                      emit [completed_event d]
                        (case m_onProgressEndMessage m d of
                           Inl e \<Rightarrow> ([], Some e)
                         | Inr emsg \<Rightarrow>
                             emit [progress_end_event emsg d] (sse_steps V mods d)))))"
| "sse_steps V (OtherCls n # mods) data =
     (case dumps_raw data of
        Inl e \<Rightarrow> ([], Some e)
      | Inr pl \<Rightarrow> emit [exception_event pl] (sse_steps V mods data))"
| "sse_steps V (u # mods) data = ([], Some (TypeError ''issubclass() arg 1 must be a class''))"

definition sse_generator :: "validator \<Rightarrow> Pipeline \<Rightarrow> pyval \<Rightarrow> stream" where
  "sse_generator V p input_data =
     emit (if \<not> sse p then [sse_inactive_event] else [])
       (case coerce_input V (input_model p) input_data of
          Inl e \<Rightarrow> ([], Some e)
        | Inr data \<Rightarrow> sse_steps V (list_functions p) data)"

text \<open>
  The all-success path of the loop: every step is a module class whose instantiation,
  start hook, \<^verbatim>\<open>run\<close> (with the rebuilding of a dict result) and end hook return
  without raising, each on the data the step before it produced.
\<close>

fun all_succeed :: "validator \<Rightarrow> pyobj list \<Rightarrow> pyval \<Rightarrow> bool" where
  "all_succeed V [] data = True"
| "all_succeed V (ModuleCls m # mods) data =
     (m_new m = None \<and> \<not> isl (m_onProgressStartMessage m data) \<and>
      (case module_run V m data of
         Inl e \<Rightarrow> False
       | Inr d \<Rightarrow> \<not> isl (m_onProgressEndMessage m d) \<and> all_succeed V mods d))"
| "all_succeed V (u # mods) data = False"

section \<open>A running example\<close>

text \<open>
  Three model classes: \<open>XModel\<close> and \<open>XCopy\<close> both have one integer field
  \<^verbatim>\<open>x\<close> and are distinct classes, \<open>YModel\<close> has one integer field \<^verbatim>\<open>y\<close>. The
  validator keeps the integer field of the class and rejects everything else.
\<close>

definition XModel :: schema where
  "XModel = Schema ''XModel'' []"

definition XCopy :: schema where
  "XCopy = Schema ''XCopy'' []"

definition YModel :: schema where
  "YModel = Schema ''YModel'' []"

definition field_of :: "schema \<Rightarrow> string" where
  "field_of s = (if s = YModel then ''y'' else ''x'')"

definition validate_int :: validator where
  "validate_int s d =
     (case map_of d (field_of s) of
        Some (JInt n) \<Rightarrow> Inr [(field_of s, JInt n)]
      | _ \<Rightarrow> Inl (ValueError ''value is not a valid integer''))"

definition on_x :: "(int \<Rightarrow> exn + pyval) \<Rightarrow> pyval \<Rightarrow> exn + pyval" where
  "on_x g v =
     (case map_of (model_dump v) ''x'' of
        Some (JInt n) \<Rightarrow> g n
      | _ \<Rightarrow> Inl (TypeError ''x''))"

definition addOne :: Function where
  "addOne =
     \<lparr> f_input_model = XModel, f_output_model = XModel,
       f_to_function = on_x (\<lambda>n. Inr (Inst XModel [(''x'', JInt (n + 1))])),
       f_to_afunction = on_x (\<lambda>n. Inr (Inst XModel [(''x'', JInt (n + 1))])) \<rparr>"

definition doubleX :: Function where
  "doubleX =
     \<lparr> f_input_model = XModel, f_output_model = XCopy,
       f_to_function = on_x (\<lambda>n. Inr (Inst XCopy [(''x'', JInt (n * 2))])),
       f_to_afunction = on_x (\<lambda>n. Inr (Inst XCopy [(''x'', JInt (n * 2))])) \<rparr>"

definition asDict :: Function where
  "asDict =
     \<lparr> f_input_model = XModel, f_output_model = XModel,
       f_to_function = on_x (\<lambda>n. Inr (Dict [(''x'', JInt n)])),
       f_to_afunction = on_x (\<lambda>n. Inr (Dict [(''x'', JInt n)])) \<rparr>"

definition faulty :: Function where
  "faulty =
     \<lparr> f_input_model = XModel, f_output_model = XModel,
       f_to_function = (\<lambda>v. Inl (ValueError ''negative amount'')),
       f_to_afunction = (\<lambda>v. Inl (ValueError ''negative amount'')) \<rparr>"

definition interrupted :: Function where
  "interrupted =
     \<lparr> f_input_model = XModel, f_output_model = XModel,
       f_to_function = (\<lambda>v. Inl (BaseExceptionOnly ''KeyboardInterrupt'')),
       f_to_afunction = (\<lambda>v. Inl (BaseExceptionOnly ''CancelledError'')) \<rparr>"

definition no_inference :: "pyobj \<Rightarrow> exn + Function" where
  "no_inference u = Inl (OtherException ''no schema annotations'')"

definition Increment :: BaseModule where
  "Increment =
     \<lparr> m_new = None,
       m_annotations = [(''input'', XModel), (''return'', XModel)],
       m_run = on_x (\<lambda>n. Inr (Dict [(''x'', JInt (n + 1))])),
       m_onProgressStartMessage = (\<lambda>v. Inr ''incrementing''),
       m_onProgressEndMessage = (\<lambda>v. Inr ''incremented'') \<rparr>"

definition Duplicate :: BaseModule where
  "Duplicate =
     \<lparr> m_new = None,
       m_annotations = [(''input'', XModel), (''return'', XCopy)],
       m_run = on_x (\<lambda>n. Inr (Inst XCopy [(''x'', JInt (n * 2))])),
       m_onProgressStartMessage = (\<lambda>v. Inr ''doubling''),
       m_onProgressEndMessage = (\<lambda>v. Inr ''doubled'') \<rparr>"

definition Broken :: BaseModule where
  "Broken =
     \<lparr> m_new = None,
       m_annotations = [(''input'', XModel), (''return'', XModel)],
       m_run = (\<lambda>v. Inl (ValueError ''negative amount'')),
       m_onProgressStartMessage = (\<lambda>v. Inr ''starting''),
       m_onProgressEndMessage = (\<lambda>v. Inr ''finished'') \<rparr>"

definition empty_pipeline :: "bool \<Rightarrow> Pipeline" where
  "empty_pipeline s = init ''example'' None ''0000'' s"

definition function_pipeline :: "Function list \<Rightarrow> Pipeline" where
  "function_pipeline fs =
     snd (functions' no_inference (empty_pipeline False) (map FunctionObj fs))"

definition module_pipeline :: "BaseModule list \<Rightarrow> Pipeline" where
  "module_pipeline ms = snd (modules (empty_pipeline True) (map ModuleCls ms))"

section \<open>Evaluation of the example\<close>

lemmas example_defs =
  XModel_def XCopy_def YModel_def field_of_def validate_int_def on_x_def addOne_def
  doubleX_def asDict_def faulty_def interrupted_def no_inference_def Increment_def Duplicate_def Broken_def
  empty_pipeline_def function_pipeline_def module_pipeline_def init_def

lemmas pipeline_defs =
  functions'_def modules_def infer_models_def construct_def coerce_output_def
  to_function_def to_afunction_def failed_def succeeded_def isinstance_model_def
  except_Exception_def build_body_def build_with_def build_def abuild_def coerce_input_def
  module_run_def
  arun_modules_def arun_def sse_generator_def emit_def input_def output'_def

lemmas event_defs =
  sse_inactive_event_def start_event_def completed_event_def progress_end_event_def
  exception_event_def end_event_def

section \<open>Registration of steps\<close>



lemma append_modules_stops:
  assumes "\<forall>u\<in>set pre. issubclass_BaseModule u = Inr True"
    and "issubclass_BaseModule bad \<noteq> Inr True"
  shows "\<exists>e. append_modules lf (pre @ bad # rest) = (Some e, lf @ pre)"
  using assms
proof (induction pre arbitrary: lf)
  case Nil
  then show ?case by (auto split: sum.splits bool.splits)
next
  case (Cons a pre)
  from Cons.prems have a: "issubclass_BaseModule a = Inr True"
    and others: "\<forall>u\<in>set pre. issubclass_BaseModule u = Inr True" by auto
  from Cons.IH [OF others Cons.prems(2), of "lf @ [a]"] obtain e where
    "append_modules (lf @ [a]) (pre @ bad # rest) = (Some e, (lf @ [a]) @ pre)" by blast
  with a show ?case by simp
qed




text \<open>
  C10. \<^verbatim>\<open>modules\<close> is not atomic. When the list of units holds a unit that is not a
  subclass of \<^verbatim>\<open>BaseModule\<close>, the call raises at the first such unit; the units
  before it are in the step list, and nothing else of the definition has changed: no
  schema was inferred.
\<close>

theorem modules_not_atomic:
  assumes "\<forall>u\<in>set pre. issubclass_BaseModule u = Inr True"
    and "issubclass_BaseModule bad \<noteq> Inr True"
  shows "\<exists>e. modules p (pre @ bad # rest) =
           (Some e, p\<lparr>list_functions := list_functions p @ pre\<rparr>)"
proof -
  from append_modules_stops [OF assms] obtain e where
    "append_modules (list_functions p) (pre @ bad # rest) = (Some e, list_functions p @ pre)"
    by blast
  then show ?thesis by (auto simp: modules_def)
qed

theorem modules_not_atomic_witness:
  "issubclass_BaseModule (ModuleCls Increment) = Inr True \<and>
   issubclass_BaseModule (OtherCls ''Foreign'') \<noteq> Inr True \<and>
   modules (empty_pipeline True) ([ModuleCls Increment] @ OtherCls ''Foreign'' # [ModuleCls Duplicate]) =
     (Some (OtherException ''The module should be of type BaseModule''),
      (empty_pipeline True)\<lparr>list_functions := [ModuleCls Increment]\<rparr>) \<and>
   input_model (snd (modules (empty_pipeline True)
      ([ModuleCls Increment] @ OtherCls ''Foreign'' # [ModuleCls Duplicate]))) = None"
  using modules_not_atomic [where pre = "[ModuleCls Increment]" and bad = "OtherCls ''Foreign''"
      and rest = "[ModuleCls Duplicate]" and p = "empty_pipeline True"]
  by (simp add: example_defs pipeline_defs)

lemma issubclass_schema_refl: "issubclass_schema c c"
  by (cases c) simp

lemma infer_models_keeps:
  "list_functions (snd (infer_models first lst p)) = list_functions p"
  "input_model p = Some a \<Longrightarrow> input_model (snd (infer_models first lst p)) = Some a"
  "output_model p = Some b \<Longrightarrow> output_model (snd (infer_models first lst p)) = Some b"
  by (auto simp: infer_models_def split: sum.splits)

lemma infer_models_resolved:
  "infer_models first lst p = (None, p') \<Longrightarrow> list_functions p' \<noteq> [] \<Longrightarrow>
   input_model p' \<noteq> None \<and> output_model p' \<noteq> None"
  by (auto simp: infer_models_def split: sum.splits if_splits)


text \<open>
  C7, as the code has it. A registration call that returns and leaves at least one step
  in the definition leaves both schemas resolved, and no registration call changes a
  schema that is already resolved: inference is first-write-wins per side. The explicit
  setters \<^verbatim>\<open>input\<close> and \<^verbatim>\<open>output\<close> assign unconditionally, also after steps were
  appended, and the assigned schema is the one the later calls use.
\<close>

theorem schema_resolution:
  "(functions' asF p fs = (None, p') \<and> list_functions p' \<noteq> [] \<longrightarrow>
      input_model p' \<noteq> None \<and> output_model p' \<noteq> None)
   \<and> (modules q ms = (None, q') \<and> list_functions q' \<noteq> [] \<longrightarrow>
      input_model q' \<noteq> None \<and> output_model q' \<noteq> None)
   \<and> (input_model p = Some a \<longrightarrow>
      input_model (snd (functions' asF p fs)) = Some a \<and>
      input_model (snd (modules p ms)) = Some a)
   \<and> (output_model p = Some b \<longrightarrow>
      output_model (snd (functions' asF p fs)) = Some b \<and>
      output_model (snd (modules p ms)) = Some b)
   \<and> input (p :: Pipeline) m = p\<lparr>input_model := Some m\<rparr>
   \<and> output' p m = p\<lparr>output_model := Some m\<rparr>"
proof (intro conjI impI)
  assume "functions' asF p fs = (None, p') \<and> list_functions p' \<noteq> []"
  then show "input_model p' \<noteq> None" "output_model p' \<noteq> None"
    by (auto simp: functions'_def split: prod.splits option.splits
        dest: infer_models_resolved)
next
  assume "modules q ms = (None, q') \<and> list_functions q' \<noteq> []"
  then show "input_model q' \<noteq> None" "output_model q' \<noteq> None"
    by (auto simp: modules_def split: prod.splits option.splits
        dest: infer_models_resolved)
next
  assume "input_model p = Some a"
  then show "input_model (snd (functions' asF p fs)) = Some a"
    "input_model (snd (modules p ms)) = Some a"
    by (auto simp: functions'_def modules_def infer_models_keeps
        split: prod.splits option.splits)
next
  assume "output_model p = Some b"
  then show "output_model (snd (functions' asF p fs)) = Some b"
    "output_model (snd (modules p ms)) = Some b"
    by (auto simp: functions'_def modules_def infer_models_keeps
        split: prod.splits option.splits)
qed (simp_all add: input_def output'_def)

theorem schema_resolution_witness:
  "functions' no_inference (function_pipeline [addOne]) [FunctionObj doubleX] =
     (None, (function_pipeline [addOne])
        \<lparr>list_functions := [FunctionObj addOne, FunctionObj doubleX]\<rparr>) \<and>
   modules (empty_pipeline True) [ModuleCls Increment] = (None, module_pipeline [Increment]) \<and>
   list_functions (module_pipeline [Increment]) \<noteq> [] \<and>
   input_model (function_pipeline [addOne]) = Some XModel \<and>
   output_model (function_pipeline [addOne]) = Some XModel \<and>
   output_model (snd (functions' no_inference (function_pipeline [addOne]) [FunctionObj doubleX]))
     = Some XModel \<and>
   input_model (input (function_pipeline [addOne]) YModel) = Some YModel"
  using schema_resolution [where asF = no_inference and p = "function_pipeline [addOne]"
      and fs = "[FunctionObj doubleX]" and p' = "(function_pipeline [addOne])
        \<lparr>list_functions := [FunctionObj addOne, FunctionObj doubleX]\<rparr>"
      and q = "empty_pipeline True" and ms = "[ModuleCls Increment]"
      and q' = "module_pipeline [Increment]" and a = XModel and b = XModel and m = YModel]
  by (simp add: example_defs pipeline_defs)

theorem schemas_fixed_counterexample:
  "list_functions (function_pipeline [addOne]) = [FunctionObj addOne] \<and>
   input_model (function_pipeline [addOne]) = Some XModel \<and>
   input_model (input (function_pipeline [addOne]) YModel) = Some YModel \<and>
   XModel \<noteq> YModel \<and>
   build validate_int (function_pipeline [addOne]) [(''x'', JInt 1)] =
     Inr (succeeded [(''x'', JInt 2)]) \<and>
   build validate_int (input (function_pipeline [addOne]) YModel) [(''x'', JInt 1)] =
     Inr (failed ''Input data validation error: value is not a valid integer'') \<and>
   output_model (output' (function_pipeline [addOne]) YModel) = Some YModel \<and>
   build validate_int (output' (function_pipeline [addOne]) YModel) [(''x'', JInt 1)] =
     Inr (failed ''Value error during pipeline execution: value is not a valid integer'')"
  by (simp add: example_defs pipeline_defs)



section \<open>The execution runner as an error boundary\<close>

lemma run_steps_append:
  "run_steps call (xs @ ys) x =
     (case run_steps call xs x of Inl e \<Rightarrow> Inl e | Inr y \<Rightarrow> run_steps call ys y)"
  by (induction xs arbitrary: x) (auto split: sum.splits)

lemma run_modules_append:
  "run_modules V (xs @ ys) x =
     (case run_modules V xs x of Inl e \<Rightarrow> Inl e | Inr y \<Rightarrow> run_modules V ys y)"
  by (induction V xs x rule: run_modules.induct) (auto split: sum.splits option.splits)

lemma failed_keys:
  "set (map fst (failed m)) = {''status'', ''result'', ''message''}"
  "distinct (map fst (failed m))"
  "map_of (failed m) ''status'' = Some (RStr ''failed'')"
  "map_of (failed m) ''result'' = Some RNone"
  "map_of (failed m) ''message'' = Some (RStr m)"
  by (auto simp: failed_def)

lemma succeeded_keys:
  "set (map fst (succeeded r)) = {''status'', ''result'', ''message''}"
  "distinct (map fst (succeeded r))"
  "map_of (succeeded r) ''status'' = Some (RStr ''success'')"
  "map_of (succeeded r) ''result'' = Some (RMap r)"
  "map_of (succeeded r) ''message'' = Some (RStr ''Pipeline built successfully.'')"
  by (auto simp: succeeded_def)

text \<open>The outer handler never has anything to catch: what leaves the inner handlers is
  no \<^verbatim>\<open>Exception\<close>.\<close>

lemma build_with_value:
  "build_with V p run d =
     (case construct V (input_model p) d of
        Inl e \<Rightarrow>
          except_Exception (\<lambda>e. failed (''Input data validation error: '' @ str_exn e)) e
      | Inr i \<Rightarrow>
          (case run i of
             Inl e \<Rightarrow> except_Exception (\<lambda>e. failed (execution_error e)) e
           | Inr out \<Rightarrow>
               (case isinstance_model out (output_model p) of
                  Inl e \<Rightarrow> Inr (failed (''Error validating output model: '' @ str_exn e))
                | Inr ok \<Rightarrow>
                    Inr (if ok then succeeded (model_dump out)
                         else failed
                           ''Output schema mismatch. The output did not match the expected model schema.''))))"
  by (auto simp: build_with_def build_body_def except_Exception_def isinstance_model_def
      split: sum.splits option.splits bool.splits)

lemma build_with_cases:
  "(\<exists>m. build_with V p run d = Inr (failed m)) \<or>
   (\<exists>r. build_with V p run d = Inr (succeeded r)) \<or>
   (\<exists>e. build_with V p run d = Inl e \<and> \<not> is_Exception e)"
  by (auto simp: build_with_value except_Exception_def split: sum.splits)

lemma build_with_shape:
  "(\<exists>r. build_with V p run d = Inr r \<and>
       set (map fst r) = {''status'', ''result'', ''message''} \<and> distinct (map fst r) \<and>
       (map_of r ''status'' = Some (RStr ''success'') \<or>
        map_of r ''status'' = Some (RStr ''failed'') \<and> map_of r ''result'' = Some RNone) \<and>
       (\<exists>m. map_of r ''message'' = Some (RStr m)))
   \<or> (\<exists>e. build_with V p run d = Inl e \<and> \<not> is_Exception e)"
proof -
  from build_with_cases [of V p run d] consider
      m where "build_with V p run d = Inr (failed m)"
    | r where "build_with V p run d = Inr (succeeded r)"
    | e where "build_with V p run d = Inl e" "\<not> is_Exception e"
    by blast
  then show ?thesis
  proof cases
    case 1
    then show ?thesis using failed_keys [of m] by auto
  next
    case 2
    then show ?thesis using succeeded_keys [of r] by auto
  next
    case 3
    then show ?thesis by blast
  qed
qed

lemma build_with_escape:
  "build_with V p run d = Inl e \<Longrightarrow>
   \<not> is_Exception e \<and>
   (construct V (input_model p) d = Inl e \<or>
    (\<exists>i. construct V (input_model p) d = Inr i \<and> run i = Inl e))"
  by (auto simp: build_with_value except_Exception_def split: sum.splits if_splits)

lemma build_with_input_error:
  "construct V (input_model p) d = Inl e \<Longrightarrow>
   build_with V p run d =
     except_Exception (\<lambda>e. failed (''Input data validation error: '' @ str_exn e)) e"
  by (simp add: build_with_value)

lemma build_with_execution_error:
  "construct V (input_model p) d = Inr i \<Longrightarrow> run i = Inl e \<Longrightarrow>
   build_with V p run d = except_Exception (\<lambda>e. failed (execution_error e)) e"
  by (simp add: build_with_value)

lemma build_with_output_error:
  "construct V (input_model p) d = Inr i \<Longrightarrow> run i = Inr out \<Longrightarrow>
   isinstance_model out (output_model p) = Inl e \<Longrightarrow>
   build_with V p run d = Inr (failed (''Error validating output model: '' @ str_exn e))"
  by (simp add: build_with_value)

text \<open>
  C2, as the code has it. \<^verbatim>\<open>build\<close> and \<^verbatim>\<open>abuild\<close> are error boundaries for the
  instances of \<^verbatim>\<open>Exception\<close>: an \<^verbatim>\<open>Exception\<close> raised while the input instance is
  built, while the compiled pipeline runs, or while the output is checked gives a failed
  result with the message of that stage, and every result is a dict with exactly the keys
  \<^verbatim>\<open>status\<close>, \<^verbatim>\<open>result\<close> and \<^verbatim>\<open>message\<close>, whose status is \<^verbatim>\<open>success\<close> or
  \<^verbatim>\<open>failed\<close>, a failed one with the result \<^verbatim>\<open>None\<close>. All handlers are
  \<^verbatim>\<open>except Exception\<close>: what is raised and is no \<^verbatim>\<open>Exception\<close>
  (\<^verbatim>\<open>KeyboardInterrupt\<close>, \<^verbatim>\<open>SystemExit\<close>, a cancellation) leaves the call, and
  nothing else does.
\<close>

theorem build_error_boundary:
  "((\<exists>r. build V p d = Inr r \<and>
       set (map fst r) = {''status'', ''result'', ''message''} \<and> distinct (map fst r) \<and>
       (map_of r ''status'' = Some (RStr ''success'') \<or>
        map_of r ''status'' = Some (RStr ''failed'') \<and> map_of r ''result'' = Some RNone) \<and>
       (\<exists>m. map_of r ''message'' = Some (RStr m)))
     \<or> (\<exists>e. build V p d = Inl e \<and> \<not> is_Exception e))
   \<and> ((\<exists>r. abuild V p d = Inr r \<and>
       set (map fst r) = {''status'', ''result'', ''message''} \<and> distinct (map fst r) \<and>
       (map_of r ''status'' = Some (RStr ''success'') \<or>
        map_of r ''status'' = Some (RStr ''failed'') \<and> map_of r ''result'' = Some RNone) \<and>
       (\<exists>m. map_of r ''message'' = Some (RStr m)))
     \<or> (\<exists>e. abuild V p d = Inl e \<and> \<not> is_Exception e))
   \<and> (build V p d = Inl e \<longrightarrow>
        \<not> is_Exception e \<and>
        (construct V (input_model p) d = Inl e \<or>
         (\<exists>i. construct V (input_model p) d = Inr i \<and> to_function V p i = Inl e)))
   \<and> (abuild V p d = Inl e' \<longrightarrow>
        \<not> is_Exception e' \<and>
        (construct V (input_model p) d = Inl e' \<or>
         (\<exists>i. construct V (input_model p) d = Inr i \<and> to_afunction V p i = Inl e')))
   \<and> (construct V (input_model p1) d1 = Inl e1 \<longrightarrow>
        build V p1 d1 =
          (if is_Exception e1
           then Inr (failed (''Input data validation error: '' @ str_exn e1)) else Inl e1) \<and>
        abuild V p1 d1 =
          (if is_Exception e1
           then Inr (failed (''Input data validation error: '' @ str_exn e1)) else Inl e1))
   \<and> (construct V (input_model p2) d2 = Inr i2 \<and> to_function V p2 i2 = Inl e2 \<longrightarrow>
        build V p2 d2 =
          (if is_Exception e2 then Inr (failed (execution_error e2)) else Inl e2))
   \<and> (construct V (input_model p2) d2 = Inr i2 \<and> to_afunction V p2 i2 = Inl e3 \<longrightarrow>
        abuild V p2 d2 =
          (if is_Exception e3 then Inr (failed (execution_error e3)) else Inl e3))
   \<and> (construct V (input_model p4) d4 = Inr i4 \<and> to_function V p4 i4 = Inr out \<and>
      isinstance_model out (output_model p4) = Inl e4 \<longrightarrow>
        build V p4 d4 = Inr (failed (''Error validating output model: '' @ str_exn e4)))
   \<and> (construct V (input_model p4) d4 = Inr i4 \<and> to_afunction V p4 i4 = Inr out' \<and>
      isinstance_model out' (output_model p4) = Inl e5 \<longrightarrow>
        abuild V p4 d4 = Inr (failed (''Error validating output model: '' @ str_exn e5)))"
proof (intro conjI impI)
  show "(\<exists>r. build V p d = Inr r \<and>
       set (map fst r) = {''status'', ''result'', ''message''} \<and> distinct (map fst r) \<and>
       (map_of r ''status'' = Some (RStr ''success'') \<or>
        map_of r ''status'' = Some (RStr ''failed'') \<and> map_of r ''result'' = Some RNone) \<and>
       (\<exists>m. map_of r ''message'' = Some (RStr m)))
     \<or> (\<exists>e. build V p d = Inl e \<and> \<not> is_Exception e)"
    unfolding build_def by (rule build_with_shape)
  show "(\<exists>r. abuild V p d = Inr r \<and>
       set (map fst r) = {''status'', ''result'', ''message''} \<and> distinct (map fst r) \<and>
       (map_of r ''status'' = Some (RStr ''success'') \<or>
        map_of r ''status'' = Some (RStr ''failed'') \<and> map_of r ''result'' = Some RNone) \<and>
       (\<exists>m. map_of r ''message'' = Some (RStr m)))
     \<or> (\<exists>e. abuild V p d = Inl e \<and> \<not> is_Exception e)"
    unfolding abuild_def by (rule build_with_shape)
next
  assume "build V p d = Inl e"
  from build_with_escape [OF this [unfolded build_def]]
  show "\<not> is_Exception e"
    "construct V (input_model p) d = Inl e \<or>
       (\<exists>i. construct V (input_model p) d = Inr i \<and> to_function V p i = Inl e)"
    by blast+
next
  assume "abuild V p d = Inl e'"
  from build_with_escape [OF this [unfolded abuild_def]]
  show "\<not> is_Exception e'"
    "construct V (input_model p) d = Inl e' \<or>
       (\<exists>i. construct V (input_model p) d = Inr i \<and> to_afunction V p i = Inl e')"
    by blast+
next
  assume h: "construct V (input_model p1) d1 = Inl e1"
  show "build V p1 d1 =
      (if is_Exception e1
       then Inr (failed (''Input data validation error: '' @ str_exn e1)) else Inl e1)"
    "abuild V p1 d1 =
      (if is_Exception e1
       then Inr (failed (''Input data validation error: '' @ str_exn e1)) else Inl e1)"
    by (simp_all add: build_def abuild_def build_with_input_error [OF h] except_Exception_def)
next
  assume "construct V (input_model p2) d2 = Inr i2 \<and> to_function V p2 i2 = Inl e2"
  then show "build V p2 d2 =
      (if is_Exception e2 then Inr (failed (execution_error e2)) else Inl e2)"
    by (simp add: build_def build_with_value except_Exception_def)
next
  assume "construct V (input_model p2) d2 = Inr i2 \<and> to_afunction V p2 i2 = Inl e3"
  then show "abuild V p2 d2 =
      (if is_Exception e3 then Inr (failed (execution_error e3)) else Inl e3)"
    by (simp add: abuild_def build_with_value except_Exception_def)
next
  assume "construct V (input_model p4) d4 = Inr i4 \<and> to_function V p4 i4 = Inr out \<and>
      isinstance_model out (output_model p4) = Inl e4"
  then show "build V p4 d4 = Inr (failed (''Error validating output model: '' @ str_exn e4))"
    by (simp add: build_def build_with_value)
next
  assume "construct V (input_model p4) d4 = Inr i4 \<and> to_afunction V p4 i4 = Inr out' \<and>
      isinstance_model out' (output_model p4) = Inl e5"
  then show "abuild V p4 d4 = Inr (failed (''Error validating output model: '' @ str_exn e5))"
    by (simp add: abuild_def build_with_value)
qed

theorem build_error_boundary_witness:
  "construct validate_int (input_model (function_pipeline [addOne])) [(''x'', JStr ''one'')] =
     Inl (ValueError ''value is not a valid integer'') \<and>
   build validate_int (function_pipeline [addOne]) [(''x'', JStr ''one'')] =
     Inr (failed ''Input data validation error: value is not a valid integer'') \<and>
   construct validate_int (input_model (function_pipeline [addOne, faulty])) [(''x'', JInt 1)] =
     Inr (Inst XModel [(''x'', JInt 1)]) \<and>
   to_function validate_int (function_pipeline [addOne, faulty]) (Inst XModel [(''x'', JInt 1)]) =
     Inl (ValueError ''negative amount'') \<and>
   to_afunction validate_int (function_pipeline [addOne, faulty]) (Inst XModel [(''x'', JInt 1)]) =
     Inl (ValueError ''negative amount'') \<and>
   abuild validate_int (function_pipeline [addOne, faulty]) [(''x'', JInt 1)] =
     Inr (failed ''Value error during pipeline execution: negative amount'') \<and>
   to_function validate_int ((function_pipeline [asDict])\<lparr>output_model := None\<rparr>)
     (Inst XModel [(''x'', JInt 1)]) = Inr (Dict [(''x'', JInt 1)]) \<and>
   to_afunction validate_int ((function_pipeline [asDict])\<lparr>output_model := None\<rparr>)
     (Inst XModel [(''x'', JInt 1)]) = Inr (Dict [(''x'', JInt 1)]) \<and>
   isinstance_model (Dict [(''x'', JInt 1)]) None =
     Inl (TypeError ''isinstance() arg 2 must be a type'') \<and>
   build validate_int ((function_pipeline [asDict])\<lparr>output_model := None\<rparr>) [(''x'', JInt 1)] =
     Inr (failed ''Error validating output model: isinstance() arg 2 must be a type'') \<and>
   to_function validate_int (function_pipeline [addOne, interrupted])
     (Inst XModel [(''x'', JInt 1)]) = Inl (BaseExceptionOnly ''KeyboardInterrupt'') \<and>
   build validate_int (function_pipeline [addOne, interrupted]) [(''x'', JInt 1)] =
     Inl (BaseExceptionOnly ''KeyboardInterrupt'') \<and>
   abuild validate_int (function_pipeline [addOne, interrupted]) [(''x'', JInt 1)] =
     Inl (BaseExceptionOnly ''CancelledError'')"
  using build_error_boundary [where V = validate_int
      and p = "function_pipeline [addOne, interrupted]" and d = "[(''x'', JInt 1)]"
      and e = "BaseExceptionOnly ''KeyboardInterrupt''"
      and e' = "BaseExceptionOnly ''CancelledError''"
      and ?p1.0 = "function_pipeline [addOne]" and ?d1.0 = "[(''x'', JStr ''one'')]"
      and ?e1.0 = "ValueError ''value is not a valid integer''"
      and ?p2.0 = "function_pipeline [addOne, faulty]" and ?d2.0 = "[(''x'', JInt 1)]"
      and ?i2.0 = "Inst XModel [(''x'', JInt 1)]"
      and ?e2.0 = "ValueError ''negative amount''" and ?e3.0 = "ValueError ''negative amount''"
      and ?p4.0 = "(function_pipeline [asDict])\<lparr>output_model := None\<rparr>"
      and ?d4.0 = "[(''x'', JInt 1)]" and ?i4.0 = "Inst XModel [(''x'', JInt 1)]"
      and out = "Dict [(''x'', JInt 1)]" and out' = "Dict [(''x'', JInt 1)]"
      and ?e4.0 = "TypeError ''isinstance() arg 2 must be a type''"
      and ?e5.0 = "TypeError ''isinstance() arg 2 must be a type''"]
    build_error_boundary [where V = validate_int
      and ?p2.0 = "function_pipeline [addOne, interrupted]" and ?d2.0 = "[(''x'', JInt 1)]"
      and ?i2.0 = "Inst XModel [(''x'', JInt 1)]"
      and ?e2.0 = "BaseExceptionOnly ''KeyboardInterrupt''"
      and ?e3.0 = "BaseExceptionOnly ''CancelledError''"]
  by (simp add: example_defs pipeline_defs)

theorem build_error_boundary_counterexample:
  "to_function validate_int (function_pipeline [addOne, interrupted])
     (Inst XModel [(''x'', JInt 1)]) = Inl (BaseExceptionOnly ''KeyboardInterrupt'') \<and>
   build validate_int (function_pipeline [addOne, interrupted]) [(''x'', JInt 1)] =
     Inl (BaseExceptionOnly ''KeyboardInterrupt'') \<and>
   to_afunction validate_int (function_pipeline [addOne, interrupted])
     (Inst XModel [(''x'', JInt 1)]) = Inl (BaseExceptionOnly ''CancelledError'') \<and>
   abuild validate_int (function_pipeline [addOne, interrupted]) [(''x'', JInt 1)] =
     Inl (BaseExceptionOnly ''CancelledError'')"
  by (simp add: example_defs pipeline_defs)

lemma build_valid_input:
  assumes "input_model p = Some a" and "output_model p = Some b" and "V a d = Inr f"
  shows "build V p d =
     (case run_steps call_to_function (list_functions p) (Inst a f) of
        Inl e \<Rightarrow> except_Exception (\<lambda>e. failed (execution_error e)) e
      | Inr (Inst s g) \<Rightarrow>
          (case V b g of
             Inl e \<Rightarrow> except_Exception (\<lambda>e. failed (execution_error e)) e
           | Inr h \<Rightarrow> Inr (succeeded h))
      | Inr (Dict g) \<Rightarrow>
          Inr (failed
            ''Output schema mismatch. The output did not match the expected model schema.'')
      | Inr (Prim x) \<Rightarrow>
          Inr (failed
            ''Output schema mismatch. The output did not match the expected model schema.''))"
  using assms
  by (auto simp: build_def build_with_value construct_def to_function_def coerce_output_def
      isinstance_model_def issubclass_schema_refl split: sum.splits pyval.splits)

lemma execution_error_not_mismatch:
  "execution_error e \<noteq>
     ''Output schema mismatch. The output did not match the expected model schema.''"
  by (cases e) simp_all

lemma failed_inject: "failed m = failed m' \<longleftrightarrow> m = m'"
  by (simp add: failed_def)

lemma succeeded_not_failed: "succeeded r \<noteq> failed m"
  by (simp add: succeeded_def failed_def)

text \<open>
  C1, as the code has it. Let the input mapping validate against the input schema, and let
  an output schema be declared. \<^verbatim>\<open>to_function\<close> rebuilds the data of the last step in
  the output schema whenever that data is a model instance, of whatever class, so the
  test \<^verbatim>\<open>isinstance\<close> of \<^verbatim>\<open>build\<close> never sees the class the last step returned.
  \<^verbatim>\<open>build\<close> reports \<^verbatim>\<open>success\<close> exactly when every step returns, the data of the
  last step is a model instance, and its dump validates against the output schema: the
  test is structural. The result is then the validated dump. When the dump does not
  validate, the run ends in the handlers of the execution, with the message of a value
  error for a validation error. The failure \<^verbatim>\<open>Output schema mismatch\<close> is returned
  exactly when every step returns and the data of the last step is no model instance.
\<close>

theorem build_outcome:
  assumes "input_model p = Some a" and "output_model p = Some b" and "V a d = Inr f"
  shows "((\<exists>r. build V p d = Inr r \<and> map_of r ''status'' = Some (RStr ''success'')) \<longleftrightarrow>
          (\<exists>s g h. run_steps call_to_function (list_functions p) (Inst a f) = Inr (Inst s g) \<and>
                   V b g = Inr h))
       \<and> (run_steps call_to_function (list_functions p) (Inst a f) = Inr (Inst s g) \<longrightarrow>
            build V p d =
              (case V b g of
                 Inr h \<Rightarrow> Inr (succeeded h)
               | Inl e \<Rightarrow> if is_Exception e then Inr (failed (execution_error e)) else Inl e))
       \<and> (build V p d =
            Inr (failed
              ''Output schema mismatch. The output did not match the expected model schema.'')
          \<longleftrightarrow>
          (\<exists>data. run_steps call_to_function (list_functions p) (Inst a f) = Inr data \<and>
                  \<not> is_BaseModel data))
       \<and> (run_steps call_to_function (list_functions p) (Inst a f) = Inl e' \<longrightarrow>
            build V p d =
              (if is_Exception e' then Inr (failed (execution_error e')) else Inl e'))"
proof -
  let ?steps = "run_steps call_to_function (list_functions p) (Inst a f)"
  let ?mismatch =
    "''Output schema mismatch. The output did not match the expected model schema.''"
  note outcome = build_valid_input [where V = V and p = p and a = a and b = b and d = d and f = f, OF assms]
  have not_success: "map_of (failed m) ''status'' \<noteq> Some (RStr ''success'')" for m
    by (simp add: failed_keys)
  have success: "(\<exists>r. build V p d = Inr r \<and> map_of r ''status'' = Some (RStr ''success'')) \<longleftrightarrow>
      (\<exists>s g h. ?steps = Inr (Inst s g) \<and> V b g = Inr h)"
  proof (cases ?steps)
    case (Inl e)
    with outcome not_success show ?thesis
      by (auto simp: except_Exception_def split: if_splits)
  next
    case (Inr data)
    show ?thesis
    proof (cases data)
      case (Inst s g)
      with Inr outcome not_success show ?thesis
        by (cases "V b g") (auto simp: except_Exception_def succeeded_keys split: if_splits)
    next
      case (Dict g)
      with Inr outcome not_success show ?thesis by auto
    next
      case (Prim x)
      with Inr outcome not_success show ?thesis by auto
    qed
  qed
  have rebuilt: "build V p d =
      (case V b g of
         Inr h \<Rightarrow> Inr (succeeded h)
       | Inl e \<Rightarrow> if is_Exception e then Inr (failed (execution_error e)) else Inl e)"
    if "?steps = Inr (Inst s g)"
    using that outcome by (simp add: except_Exception_def split: sum.splits)
  have mismatch: "build V p d = Inr (failed ?mismatch) \<longleftrightarrow>
      (\<exists>data. ?steps = Inr data \<and> \<not> is_BaseModel data)"
  proof (cases ?steps)
    case (Inl e)
    with outcome show ?thesis
      by (auto simp: except_Exception_def failed_inject execution_error_not_mismatch
          split: if_splits)
  next
    case (Inr data)
    show ?thesis
    proof (cases data)
      case (Inst s g)
      with Inr outcome show ?thesis
        by (cases "V b g")
           (auto simp: except_Exception_def failed_inject execution_error_not_mismatch
              succeeded_not_failed split: if_splits)
    next
      case (Dict g)
      with Inr outcome show ?thesis by simp
    next
      case (Prim x)
      with Inr outcome show ?thesis by simp
    qed
  qed
  have raised: "build V p d =
      (if is_Exception e' then Inr (failed (execution_error e')) else Inl e')"
    if "?steps = Inl e'"
    using that outcome by (simp add: except_Exception_def)
  from success rebuilt mismatch raised show ?thesis by blast
qed

theorem build_outcome_witness:
  "input_model (output' (function_pipeline [addOne, doubleX]) XModel) = Some XModel \<and>
   output_model (output' (function_pipeline [addOne, doubleX]) XModel) = Some XModel \<and>
   validate_int XModel [(''x'', JInt 1)] = Inr [(''x'', JInt 1)] \<and>
   run_steps call_to_function
     (list_functions (output' (function_pipeline [addOne, doubleX]) XModel))
     (Inst XModel [(''x'', JInt 1)]) = Inr (Inst XCopy [(''x'', JInt 4)]) \<and>
   validate_int XModel [(''x'', JInt 4)] = Inr [(''x'', JInt 4)] \<and>
   build validate_int (output' (function_pipeline [addOne, doubleX]) XModel) [(''x'', JInt 1)] =
     Inr [(''status'', RStr ''success''), (''message'', RStr ''Pipeline built successfully.''),
          (''result'', RMap [(''x'', JInt 4)])] \<and>
   run_steps call_to_function (list_functions (function_pipeline [addOne, asDict]))
     (Inst XModel [(''x'', JInt 1)]) = Inr (Dict [(''x'', JInt 2)]) \<and>
   \<not> is_BaseModel (Dict [(''x'', JInt 2)]) \<and>
   build validate_int (function_pipeline [addOne, asDict]) [(''x'', JInt 1)] =
     Inr [(''status'', RStr ''failed''), (''result'', RNone),
          (''message'', RStr
            ''Output schema mismatch. The output did not match the expected model schema.'')] \<and>
   run_steps call_to_function (list_functions (function_pipeline [addOne, faulty]))
     (Inst XModel [(''x'', JInt 1)]) = Inl (ValueError ''negative amount'') \<and>
   build validate_int (function_pipeline [addOne, faulty]) [(''x'', JInt 1)] =
     Inr (failed ''Value error during pipeline execution: negative amount'')"
  using build_outcome [where p = "output' (function_pipeline [addOne, doubleX]) XModel"
      and a = XModel and b = XModel and V = validate_int and d = "[(''x'', JInt 1)]"
      and f = "[(''x'', JInt 1)]" and s = XCopy and g = "[(''x'', JInt 4)]"]
    build_outcome [where p = "function_pipeline [addOne, asDict]" and a = XModel
      and b = XModel and V = validate_int and d = "[(''x'', JInt 1)]" and f = "[(''x'', JInt 1)]"]
    build_outcome [where p = "function_pipeline [addOne, faulty]" and a = XModel
      and b = XModel and V = validate_int and d = "[(''x'', JInt 1)]" and f = "[(''x'', JInt 1)]"
      and e' = "ValueError ''negative amount''"]
  by (simp add: example_defs pipeline_defs)

theorem build_outcome_counterexample:
  "output_model (output' (function_pipeline [addOne, doubleX]) XModel) = Some XModel \<and>
   run_steps call_to_function
     (list_functions (output' (function_pipeline [addOne, doubleX]) XModel))
     (Inst XModel [(''x'', JInt 1)]) = Inr (Inst XCopy [(''x'', JInt 4)]) \<and>
   type_of (Inst XCopy [(''x'', JInt 4)]) \<noteq> Some XModel \<and>
   build validate_int (output' (function_pipeline [addOne, doubleX]) XModel) [(''x'', JInt 1)] =
     Inr (succeeded [(''x'', JInt 4)]) \<and>
   output_model (output' (function_pipeline [addOne]) YModel) = Some YModel \<and>
   run_steps call_to_function (list_functions (output' (function_pipeline [addOne]) YModel))
     (Inst XModel [(''x'', JInt 1)]) = Inr (Inst XModel [(''x'', JInt 2)]) \<and>
   type_of (Inst XModel [(''x'', JInt 2)]) \<noteq> Some YModel \<and>
   build validate_int (output' (function_pipeline [addOne]) YModel) [(''x'', JInt 1)] =
     Inr (failed ''Value error during pipeline execution: value is not a valid integer'')"
  by (simp add: example_defs pipeline_defs)

text \<open>
  C8. When a step raises a \<open>ValueError\<close> on valid input, \<^verbatim>\<open>build\<close> returns the failed
  result with the result \<^verbatim>\<open>None\<close> and the message of a value error, whereas
  \<^verbatim>\<open>arun\<close> on the same pipeline and input raises that \<open>ValueError\<close>: on a function
  pipeline from the suspend-capable form of the step, on a module pipeline from
  \<^verbatim>\<open>run\<close> of the module.
\<close>

theorem value_fault:
  "(input_model p = Some a \<and> V a d = Inr f \<and> list_functions p = pre @ u # rest \<and>
    run_steps call_to_function pre (Inst a f) = Inr x \<and>
    call_to_function u x = Inl (ValueError m) \<longrightarrow>
      build V p d = Inr (failed (''Value error during pipeline execution: '' @ m)) \<and>
      map_of (failed (''Value error during pipeline execution: '' @ m)) ''result'' = Some RNone)
   \<and> (input_model p = Some a \<and> V a d = Inr f \<and> list_functions p = pre @ u # rest \<and>
      \<not> sse p \<and> run_steps call_to_afunction pre (Inst a f) = Inr y \<and>
      call_to_afunction u y = Inl (ValueError m') \<longrightarrow>
        arun V p (Dict d) = Inl (ValueError m'))
   \<and> (input_model q = Some a \<and> V a d = Inr f \<and> list_functions q = pre' @ ModuleCls mo # rest' \<and>
      sse q \<and> run_modules V pre' (Inst a f) = Inr z \<and> m_new mo = None \<and>
      m_run mo z = Inl (ValueError m'') \<longrightarrow>
        arun V q (Dict d) = Inl (ValueError m''))"
proof (intro conjI impI)
  assume h: "input_model p = Some a \<and> V a d = Inr f \<and> list_functions p = pre @ u # rest \<and>
    run_steps call_to_function pre (Inst a f) = Inr x \<and>
    call_to_function u x = Inl (ValueError m)"
  then have c: "construct V (input_model p) d = Inr (Inst a f)"
    by (simp add: construct_def)
  from h have "to_function V p (Inst a f) = Inl (ValueError m)"
    by (simp add: to_function_def run_steps_append)
  from build_with_execution_error [where run = "to_function V p", OF c this]
  show "build V p d = Inr (failed (''Value error during pipeline execution: '' @ m))"
    by (simp add: build_def except_Exception_def)
  show "map_of (failed (''Value error during pipeline execution: '' @ m)) ''result'' = Some RNone"
    by (rule failed_keys)
next
  assume h: "input_model p = Some a \<and> V a d = Inr f \<and> list_functions p = pre @ u # rest \<and>
      \<not> sse p \<and> run_steps call_to_afunction pre (Inst a f) = Inr y \<and>
      call_to_afunction u y = Inl (ValueError m')"
  then show "arun V p (Dict d) = Inl (ValueError m')"
    by (simp add: arun_def coerce_input_def construct_def to_afunction_def run_steps_append)
next
  assume h: "input_model q = Some a \<and> V a d = Inr f \<and>
      list_functions q = pre' @ ModuleCls mo # rest' \<and>
      sse q \<and> run_modules V pre' (Inst a f) = Inr z \<and> m_new mo = None \<and>
      m_run mo z = Inl (ValueError m'')"
  then show "arun V q (Dict d) = Inl (ValueError m'')"
    by (simp add: arun_def arun_modules_def coerce_input_def construct_def run_modules_append
        module_run_def)
qed

theorem value_fault_witness:
  "input_model (function_pipeline [addOne, faulty, doubleX]) = Some XModel \<and>
   validate_int XModel [(''x'', JInt 1)] = Inr [(''x'', JInt 1)] \<and>
   list_functions (function_pipeline [addOne, faulty, doubleX]) =
     [FunctionObj addOne] @ FunctionObj faulty # [FunctionObj doubleX] \<and>
   run_steps call_to_function [FunctionObj addOne] (Inst XModel [(''x'', JInt 1)]) =
     Inr (Inst XModel [(''x'', JInt 2)]) \<and>
   call_to_function (FunctionObj faulty) (Inst XModel [(''x'', JInt 2)]) =
     Inl (ValueError ''negative amount'') \<and>
   \<not> sse (function_pipeline [addOne, faulty, doubleX]) \<and>
   build validate_int (function_pipeline [addOne, faulty, doubleX]) [(''x'', JInt 1)] =
     Inr [(''status'', RStr ''failed''), (''result'', RNone),
          (''message'', RStr ''Value error during pipeline execution: negative amount'')] \<and>
   arun validate_int (function_pipeline [addOne, faulty, doubleX]) (Dict [(''x'', JInt 1)]) =
     Inl (ValueError ''negative amount'') \<and>
   input_model (module_pipeline [Increment, Broken]) = Some XModel \<and>
   list_functions (module_pipeline [Increment, Broken]) =
     [ModuleCls Increment] @ ModuleCls Broken # [] \<and>
   sse (module_pipeline [Increment, Broken]) \<and>
   run_modules validate_int [ModuleCls Increment] (Inst XModel [(''x'', JInt 1)]) =
     Inr (Inst XModel [(''x'', JInt 2)]) \<and>
   arun validate_int (module_pipeline [Increment, Broken]) (Dict [(''x'', JInt 1)]) =
     Inl (ValueError ''negative amount'')"
  using value_fault [where p = "function_pipeline [addOne, faulty, doubleX]" and a = XModel
      and V = validate_int and d = "[(''x'', JInt 1)]" and f = "[(''x'', JInt 1)]"
      and pre = "[FunctionObj addOne]" and u = "FunctionObj faulty"
      and rest = "[FunctionObj doubleX]" and x = "Inst XModel [(''x'', JInt 2)]"
      and y = "Inst XModel [(''x'', JInt 2)]" and m = "''negative amount''"
      and m' = "''negative amount''" and q = "module_pipeline [Increment, Broken]"
      and pre' = "[ModuleCls Increment]" and mo = Broken and rest' = "[]"
      and z = "Inst XModel [(''x'', JInt 2)]" and m'' = "''negative amount''"]
  by (simp add: example_defs pipeline_defs)
section \<open>Runs of the progress streamer\<close>

lemma emit_simps:
  "fst (emit evs r) = evs @ fst r"
  "snd (emit evs r) = snd r"
  by (simp_all add: emit_def)

lemma not_isl_conv: "\<not> isl x \<longleftrightarrow> (\<exists>y. x = Inr y)"
  by (cases x) simp_all

lemma sse_steps_all_succeed:
  "all_succeed V ms data \<Longrightarrow>
   snd (sse_steps V ms data) = None \<and>
   map ev_status (fst (sse_steps V ms data)) =
     concat (replicate (length ms)
       [''onProgressStartMessage'', ''onFunctionCompleted'', ''onProgressEndMessage''])
     @ [''End'']"
proof (induction V ms data rule: sse_steps.induct)
  case (1 V data)
  show ?case by (simp add: end_event_def)
next
  case (2 V m mods data)
  from "2.prems" obtain smsg d emsg where
    new: "m_new m = None" and
    start: "m_onProgressStartMessage m data = Inr smsg" and
    run: "module_run V m data = Inr d" and
    fin: "m_onProgressEndMessage m d = Inr emsg" and
    rest: "all_succeed V mods d"
    by (auto simp: not_isl_conv split: sum.splits)
  from "2.IH" [OF new start run fin rest] new start run fin show ?case
    by (simp add: emit_simps start_event_def completed_event_def progress_end_event_def)
qed simp_all

lemma sse_steps_terminal:
  "(snd (sse_steps V ms data) = None \<longrightarrow>
      fst (sse_steps V ms data) \<noteq> [] \<and> last (fst (sse_steps V ms data)) = end_event) \<and>
   (snd (sse_steps V ms data) \<noteq> None \<longrightarrow>
      (\<forall>ev\<in>set (fst (sse_steps V ms data)). ev_status ev \<noteq> ''End''))"
proof (induction V ms data rule: sse_steps.induct)
  case (1 V data)
  show ?case by simp
next
  case (2 V m mods data)
  then show ?case
    by (auto simp: emit_simps start_event_def completed_event_def progress_end_event_def
        split: sum.splits option.splits)
next
  case (3 V n mods data)
  then show ?case
    by (auto simp: emit_simps exception_event_def split: sum.splits)
qed simp_all


text \<open>
  C4. On a module pipeline of \<open>N\<close> steps, when the input converts and every step is a
  module class whose instantiation, hooks and \<^verbatim>\<open>run\<close> return, the generator
  finishes without raising and yields exactly \<open>3N + 1\<close> events: for each step in order
  a start event, a completed event and an end event, and then the terminal event.
\<close>

theorem stream_all_success:
  assumes "sse p" and "coerce_input V (input_model p) x = Inr data"
    and "all_succeed V (list_functions p) data"
  shows "snd (sse_generator V p x) = None \<and>
         length (fst (sse_generator V p x)) = 3 * length (list_functions p) + 1 \<and>
         map ev_status (fst (sse_generator V p x)) =
           concat (replicate (length (list_functions p))
             [''onProgressStartMessage'', ''onFunctionCompleted'', ''onProgressEndMessage''])
           @ [''End'']"
proof -
  from assms(1,2) have g: "sse_generator V p x = sse_steps V (list_functions p) data"
    by (simp add: sse_generator_def emit_def)
  from sse_steps_all_succeed [OF assms(3)] g
  have s: "snd (sse_generator V p x) = None"
    and m: "map ev_status (fst (sse_generator V p x)) =
           concat (replicate (length (list_functions p))
             [''onProgressStartMessage'', ''onFunctionCompleted'', ''onProgressEndMessage''])
           @ [''End'']"
    by simp_all
  have "length (fst (sse_generator V p x)) = length (map ev_status (fst (sse_generator V p x)))"
    by simp
  also have "\<dots> = 3 * length (list_functions p) + 1"
    by (simp only: m) (simp add: length_concat sum_list_replicate)
  finally show ?thesis using s m by simp
qed

theorem stream_all_success_witness:
  "sse (module_pipeline [Increment, Duplicate]) \<and>
   coerce_input validate_int (input_model (module_pipeline [Increment, Duplicate]))
     (Dict [(''x'', JInt 1)]) = Inr (Inst XModel [(''x'', JInt 1)]) \<and>
   all_succeed validate_int (list_functions (module_pipeline [Increment, Duplicate]))
     (Inst XModel [(''x'', JInt 1)]) \<and>
   length (list_functions (module_pipeline [Increment, Duplicate])) = 2 \<and>
   length (fst (sse_generator validate_int (module_pipeline [Increment, Duplicate])
     (Dict [(''x'', JInt 1)]))) = 7 \<and>
   sse_generator validate_int (module_pipeline [Increment, Duplicate]) (Dict [(''x'', JInt 1)]) =
     ([start_event ''incrementing'' (Inst XModel [(''x'', JInt 1)]),
       completed_event (Inst XModel [(''x'', JInt 2)]),
       progress_end_event ''incremented'' (Inst XModel [(''x'', JInt 2)]),
       start_event ''doubling'' (Inst XModel [(''x'', JInt 2)]),
       completed_event (Inst XCopy [(''x'', JInt 4)]),
       progress_end_event ''doubled'' (Inst XCopy [(''x'', JInt 4)]),
       end_event], None)"
  using stream_all_success [where p = "module_pipeline [Increment, Duplicate]"
      and V = validate_int and x = "Dict [(''x'', JInt 1)]"
      and data = "Inst XModel [(''x'', JInt 1)]"]
  by (simp add: example_defs pipeline_defs)

lemma sse_steps_after:
  "all_succeed V pre data \<Longrightarrow> run_modules V pre data = Inr d \<Longrightarrow>
   snd (sse_steps V (pre @ ys) data) = snd (sse_steps V ys d)"
proof (induction V pre data rule: sse_steps.induct)
  case (1 V data)
  then show ?case by simp
next
  case (2 V m mods data)
  from "2.prems"(1) obtain smsg d1 emsg where
    new: "m_new m = None" and
    start: "m_onProgressStartMessage m data = Inr smsg" and
    run: "module_run V m data = Inr d1" and
    fin: "m_onProgressEndMessage m d1 = Inr emsg" and
    rest: "all_succeed V mods d1"
    by (auto simp: not_isl_conv split: sum.splits)
  from "2.prems"(2) new run have "run_modules V mods d1 = Inr d" by simp
  from "2.IH" [OF new start run fin rest this] new start run fin show ?case
    by (simp add: emit_simps)
qed simp_all

lemma sse_steps_raise:
  assumes "m_new m = Some e \<or>
     m_new m = None \<and>
       (m_onProgressStartMessage m d = Inl e \<or>
        (\<exists>smsg. m_onProgressStartMessage m d = Inr smsg) \<and>
          (module_run V m d = Inl e \<or>
           (\<exists>d'. module_run V m d = Inr d' \<and> m_onProgressEndMessage m d' = Inl e)))"
  shows "snd (sse_steps V (ModuleCls m # rest) d) = Some e"
  using assms by (auto simp: emit_simps)

text \<open>
  C5, as the code has it. The events of a run end with the terminal frame, of status
  \<^verbatim>\<open>End\<close> and data \<^verbatim>\<open>None\<close>, exactly when the generator runs to its end. Nothing in
  the generator catches an exception. One raised by the conversion of the input ends the
  run at once, after the warning event at most. One raised inside a step, by the
  instantiation of the module, by a hook, or by \<^verbatim>\<open>run\<close> with the rebuilding of its
  result, after the steps before it have succeeded, ends the run with that exception. No
  event of a run that an exception ends has the status \<^verbatim>\<open>End\<close>.
\<close>

theorem stream_terminal:
  "(snd (sse_generator V p x) = None \<longleftrightarrow>
      fst (sse_generator V p x) \<noteq> [] \<and> last (fst (sse_generator V p x)) = end_event)
   \<and> (snd (sse_generator V p x) \<noteq> None \<longrightarrow>
      (\<forall>ev\<in>set (fst (sse_generator V p x)). ev_status ev \<noteq> ''End''))
   \<and> ev_status end_event = ''End'' \<and> ev_data end_event = PNull
   \<and> (coerce_input V (input_model p) x = Inl e \<longrightarrow>
      sse_generator V p x = (if \<not> sse p then [sse_inactive_event] else [], Some e))
   \<and> (coerce_input V (input_model p) x = Inr data \<and>
      list_functions p = pre @ ModuleCls m # rest \<and>
      all_succeed V pre data \<and> run_modules V pre data = Inr d \<and>
      (m_new m = Some e' \<or>
       m_new m = None \<and>
         (m_onProgressStartMessage m d = Inl e' \<or>
          (\<exists>smsg. m_onProgressStartMessage m d = Inr smsg) \<and>
            (module_run V m d = Inl e' \<or>
             (\<exists>d'. module_run V m d = Inr d' \<and> m_onProgressEndMessage m d' = Inl e'))))
      \<longrightarrow> snd (sse_generator V p x) = Some e' \<and>
          (\<forall>ev\<in>set (fst (sse_generator V p x)). ev_status ev \<noteq> ''End''))"
proof -
  let ?pre = "if \<not> sse p then [sse_inactive_event] else []"
  have pre: "\<forall>ev\<in>set ?pre. ev_status ev \<noteq> ''End''"
    by (simp add: sse_inactive_event_def)
  have e: "ev_status end_event = ''End''" "ev_data end_event = PNull"
    by (simp_all add: end_event_def)
  have terminal: "(snd (sse_generator V p x) = None \<longleftrightarrow>
      fst (sse_generator V p x) \<noteq> [] \<and> last (fst (sse_generator V p x)) = end_event)
   \<and> (snd (sse_generator V p x) \<noteq> None \<longrightarrow>
      (\<forall>ev\<in>set (fst (sse_generator V p x)). ev_status ev \<noteq> ''End''))"
  proof (cases "coerce_input V (input_model p) x")
    case (Inl err)
    then have g: "sse_generator V p x = (?pre, Some err)"
      by (simp add: sse_generator_def emit_def)
    have "?pre \<noteq> [] \<Longrightarrow> last ?pre \<noteq> end_event"
      by (auto simp: sse_inactive_event_def end_event_def)
    with g pre show ?thesis by auto
  next
    case (Inr data)
    let ?r = "sse_steps V (list_functions p) data"
    from Inr have g: "sse_generator V p x = (?pre @ fst ?r, snd ?r)"
      by (simp add: sse_generator_def emit_def)
    from sse_steps_terminal [of V "list_functions p" data]
    have t1: "snd ?r = None \<Longrightarrow> fst ?r \<noteq> [] \<and> last (fst ?r) = end_event"
      and t2: "snd ?r \<noteq> None \<Longrightarrow> \<forall>ev\<in>set (fst ?r). ev_status ev \<noteq> ''End''"
      by blast+
    have a: "snd ?r = None \<longleftrightarrow> ?pre @ fst ?r \<noteq> [] \<and> last (?pre @ fst ?r) = end_event"
    proof
      assume "snd ?r = None"
      with t1 show "?pre @ fst ?r \<noteq> [] \<and> last (?pre @ fst ?r) = end_event" by simp
    next
      assume h: "?pre @ fst ?r \<noteq> [] \<and> last (?pre @ fst ?r) = end_event"
      show "snd ?r = None"
      proof (rule ccontr)
        assume n: "snd ?r \<noteq> None"
        from h have "end_event \<in> set (?pre @ fst ?r)" by (metis last_in_set)
        with t2 [OF n] pre e show False by auto
      qed
    qed
    have b: "snd ?r \<noteq> None \<Longrightarrow> \<forall>ev\<in>set (?pre @ fst ?r). ev_status ev \<noteq> ''End''"
      using t2 pre by auto
    from a b show ?thesis unfolding g by simp
  qed
  have conversion: "sse_generator V p x = (?pre, Some e)"
    if "coerce_input V (input_model p) x = Inl e"
    using that by (simp add: sse_generator_def emit_def)
  have step: "snd (sse_generator V p x) = Some e'"
    if c: "coerce_input V (input_model p) x = Inr data"
      and l: "list_functions p = pre @ ModuleCls m # rest"
      and s: "all_succeed V pre data" and r: "run_modules V pre data = Inr d"
      and f: "m_new m = Some e' \<or>
       m_new m = None \<and>
         (m_onProgressStartMessage m d = Inl e' \<or>
          (\<exists>smsg. m_onProgressStartMessage m d = Inr smsg) \<and>
            (module_run V m d = Inl e' \<or>
             (\<exists>d'. module_run V m d = Inr d' \<and> m_onProgressEndMessage m d' = Inl e')))"
  proof -
    from c l have "snd (sse_generator V p x) = snd (sse_steps V (pre @ ModuleCls m # rest) data)"
      by (simp add: sse_generator_def emit_def)
    also from sse_steps_after [OF s r] have "\<dots> = snd (sse_steps V (ModuleCls m # rest) d)" .
    also from sse_steps_raise [OF f] have "\<dots> = Some e'" .
    finally show ?thesis .
  qed
  from terminal e conversion step show ?thesis by (simp (no_asm_simp))
qed

theorem stream_terminal_witness:
  "snd (sse_generator validate_int (module_pipeline [Increment])
      (Dict [(''x'', JInt 1)])) = None \<and>
   last (fst (sse_generator validate_int (module_pipeline [Increment])
      (Dict [(''x'', JInt 1)]))) = end_event \<and>
   coerce_input validate_int (input_model (module_pipeline [Increment, Broken]))
     (Dict [(''x'', JInt 1)]) = Inr (Inst XModel [(''x'', JInt 1)]) \<and>
   list_functions (module_pipeline [Increment, Broken]) =
     [ModuleCls Increment] @ ModuleCls Broken # [] \<and>
   all_succeed validate_int [ModuleCls Increment] (Inst XModel [(''x'', JInt 1)]) \<and>
   run_modules validate_int [ModuleCls Increment] (Inst XModel [(''x'', JInt 1)]) =
     Inr (Inst XModel [(''x'', JInt 2)]) \<and>
   m_new Broken = None \<and>
   m_onProgressStartMessage Broken (Inst XModel [(''x'', JInt 2)]) = Inr ''starting'' \<and>
   module_run validate_int Broken (Inst XModel [(''x'', JInt 2)]) =
     Inl (ValueError ''negative amount'') \<and>
   snd (sse_generator validate_int (module_pipeline [Increment, Broken])
      (Dict [(''x'', JInt 1)])) = Some (ValueError ''negative amount'') \<and>
   list_all (\<lambda>ev. ev_status ev \<noteq> ''End'')
     (fst (sse_generator validate_int (module_pipeline [Increment, Broken])
        (Dict [(''x'', JInt 1)]))) \<and>
   coerce_input validate_int (input_model (module_pipeline [Increment]))
     (Dict [(''x'', JStr ''one'')]) = Inl (ValueError ''value is not a valid integer'') \<and>
   sse_generator validate_int (module_pipeline [Increment]) (Dict [(''x'', JStr ''one'')]) =
     ([], Some (ValueError ''value is not a valid integer''))"
  using stream_terminal [where V = validate_int and p = "module_pipeline [Increment]"
      and x = "Dict [(''x'', JInt 1)]"]
    stream_terminal [where V = validate_int and p = "module_pipeline [Increment, Broken]"
      and x = "Dict [(''x'', JInt 1)]" and data = "Inst XModel [(''x'', JInt 1)]"
      and pre = "[ModuleCls Increment]" and m = Broken and rest = "[]"
      and d = "Inst XModel [(''x'', JInt 2)]" and e' = "ValueError ''negative amount''"]
    stream_terminal [where V = validate_int and p = "module_pipeline [Increment]"
      and x = "Dict [(''x'', JStr ''one'')]" and e = "ValueError ''value is not a valid integer''"]
  by (simp add: example_defs pipeline_defs event_defs)

theorem stream_terminal_counterexample:
  "sse_generator validate_int (module_pipeline [Increment, Broken, Duplicate])
     (Dict [(''x'', JInt 1)]) =
     ([start_event ''incrementing'' (Inst XModel [(''x'', JInt 1)]),
       completed_event (Inst XModel [(''x'', JInt 2)]),
       progress_end_event ''incremented'' (Inst XModel [(''x'', JInt 2)]),
       start_event ''starting'' (Inst XModel [(''x'', JInt 2)])],
      Some (ValueError ''negative amount'')) \<and>
   last (fst (sse_generator validate_int (module_pipeline [Increment, Broken, Duplicate])
     (Dict [(''x'', JInt 1)]))) \<noteq> end_event \<and>
   ev_status (last (fst (sse_generator validate_int
     (module_pipeline [Increment, Broken, Duplicate]) (Dict [(''x'', JInt 1)])))) =
     ''onProgressStartMessage''"
  by (simp add: example_defs pipeline_defs event_defs)



end
